theory Spec2Isabelle
  imports Complex_Main
begin

section \<open>The recommendation core of app.py\<close>

text \<open>
  The model covers \<open>load_data\<close> (lines 39-65) and \<open>get_recommendations\<close> (lines 73-97)
  of \<open>app.py\<close>. The Streamlit pages and the TMDB helpers are not modelled.

  Modelling choices:
  \<^item> a Python \<open>str\<close> is a list of code points below 256, so \<open>strip\<close> and \<open>lower\<close> are
    Python's on that range;
  \<^item> the scores are real numbers in place of float64 (no rounding, no NaN);
  \<^item> the sparse matrix is the list of its rows, every row a list of the same length;
  \<^item> \<open>numpy.argsort\<close> with its default kind is an introsort that finishes runs of at most
    16 entries by insertion sort with a strict comparison; it is modelled by the stable
    insertion sort of the positions by score, for every length;
  \<^item> an exception that leaves \<open>get_recommendations\<close> is the \<open>Inl\<close> of a sum.
\<close>

subsection \<open>Title normalisation: \<open>str.strip\<close> and \<open>str.lower\<close>\<close>

definition is_space :: "char \<Rightarrow> bool" where
  "is_space c = ((of_char c :: nat) \<in> set [9, 10, 11, 12, 13, 28, 29, 30, 31, 32, 133, 160])"

definition strip :: "string \<Rightarrow> string" where
  "strip s = rev (dropWhile is_space (rev (dropWhile is_space s)))"

definition lower_char :: "char \<Rightarrow> char" where
  "lower_char c =
     (let n = (of_char c :: nat) in
      if (65 \<le> n \<and> n \<le> 90) \<or> (192 \<le> n \<and> n \<le> 222 \<and> n \<noteq> 215)
      then char_of (n + 32) else c)"

definition lower :: "string \<Rightarrow> string" where
  "lower s = map lower_char s"

text \<open>Lines 57 and 79: \<open>str(k).strip().lower()\<close> and \<open>title.strip().lower()\<close>.\<close>

definition normalize_title :: "string \<Rightarrow> string" where
  "normalize_title s = lower (strip s)"

subsection \<open>The loaded snapshot\<close>

type_synonym matrix = "real list list"

record dataframe =
  title :: "string list"

record snapshot =
  df :: "dataframe option"
  title_to_idx :: "(string \<rightharpoonup> int) option"
  tfidf_matrix :: "matrix option"

subsection \<open>\<open>load_data\<close>\<close>

datatype artifact = DF_PATH | INDICES_PATH | TFIDF_MATRIX_PATH

text \<open>What \<open>open\<close> followed by \<open>pickle.load\<close> finds at a path.\<close>

datatype 'a pickle_file = Missing | Unreadable | Pickled 'a

datatype load_exception = FileNotFoundError artifact | Exception artifact

text \<open>The two \<open>st.error\<close> messages of lines 61 and 64.\<close>

datatype st_error = Critical_file_missing artifact | Error_loading_data artifact

definition open_load :: "artifact \<Rightarrow> 'a pickle_file \<Rightarrow> load_exception + 'a" where
  "open_load p f =
     (case f of
        Missing \<Rightarrow> Inl (FileNotFoundError p)
      | Unreadable \<Rightarrow> Inl (Exception p)
      | Pickled x \<Rightarrow> Inr x)"

text \<open>Lines 53-57: the loop over the items of \<open>indices\<close>, in their order.\<close>

fun index_loop :: "(string \<rightharpoonup> int) \<Rightarrow> (string \<times> int) list \<Rightarrow> (string \<rightharpoonup> int)" where
  "index_loop m [] = m"
| "index_loop m ((k, v) # kvs) = index_loop (m(normalize_title k \<mapsto> v)) kvs"

definition load_failed :: "load_exception \<Rightarrow> snapshot \<times> st_error option" where
  "load_failed e =
     (\<lparr>df = None, title_to_idx = None, tfidf_matrix = None\<rparr>,
      Some (case e of
              FileNotFoundError p \<Rightarrow> Critical_file_missing p
            | Exception p \<Rightarrow> Error_loading_data p))"

definition load_data ::
  "dataframe pickle_file \<Rightarrow> (string \<times> int) list pickle_file \<Rightarrow> matrix pickle_file
     \<Rightarrow> snapshot \<times> st_error option" where
  "load_data f_df f_indices f_tfidf =
     (case open_load DF_PATH f_df of
        Inl e \<Rightarrow> load_failed e
      | Inr d \<Rightarrow>
          (case open_load INDICES_PATH f_indices of
             Inl e \<Rightarrow> load_failed e
           | Inr indices \<Rightarrow>
               (case open_load TFIDF_MATRIX_PATH f_tfidf of
                  Inl e \<Rightarrow> load_failed e
                | Inr m \<Rightarrow>
                    (\<lparr>df = Some d,
                      title_to_idx = Some (index_loop Map.empty indices),
                      tfidf_matrix = Some m\<rparr>, None))))"

subsection \<open>\<open>get_recommendations\<close>\<close>

text \<open>
  The function reads the three globals and nothing else of the process state, so it is
  defined on every state that has them.
\<close>

datatype py_error = IndexError | TypeError

text \<open>\<open>tfidf_matrix[idx]\<close>: a negative index counts from the last row.\<close>

definition getrow :: "matrix \<Rightarrow> int \<Rightarrow> py_error + real list" where
  "getrow M i =
     (let n = int (length M); j = (if i < 0 then i + n else i)
      in if 0 \<le> j \<and> j < n then Inr (M ! nat j) else Inl IndexError)"

definition dot :: "real list \<Rightarrow> real list \<Rightarrow> real" where
  "dot r q = sum_list (map2 (*) r q)"

text \<open>Line 90: \<open>(tfidf_matrix @ sig.T).toarray().flatten()\<close>.\<close>

definition sim_scores :: "matrix \<Rightarrow> real list \<Rightarrow> real list" where
  "sim_scores M sig = map (\<lambda>r. dot r sig) M"

definition argsort :: "real list \<Rightarrow> nat list" where
  "argsort xs = sort_key (\<lambda>i. xs ! i) [0..<length xs]"

text \<open>\<open>xs[start:stop]\<close> with Python's rule for negative and too large bounds.\<close>

definition slice_bound :: "nat \<Rightarrow> int \<Rightarrow> nat" where
  "slice_bound n i = (if i < 0 then nat (i + int n) else min (nat i) n)"

definition py_slice :: "int \<Rightarrow> int \<Rightarrow> 'a list \<Rightarrow> 'a list" where
  "py_slice start stop xs =
     (let a = slice_bound (length xs) start; b = slice_bound (length xs) stop
      in take (b - a) (drop a xs))"

text \<open>Line 93: \<open>sim_scores.argsort()[::-1][1:top_n+1]\<close>.\<close>

definition sim_indices :: "real list \<Rightarrow> int \<Rightarrow> nat list" where
  "sim_indices scores top_n = py_slice 1 (top_n + 1) (rev (argsort scores))"

text \<open>\<open>col.iloc[positions].tolist()\<close>: a position beyond the column raises.\<close>

definition iloc :: "'a list \<Rightarrow> nat list \<Rightarrow> py_error + 'a list" where
  "iloc col ps =
     (if list_all (\<lambda>p. p < length col) ps then Inr (map (\<lambda>p. col ! p) ps)
      else Inl IndexError)"

definition get_recommendations :: "'z snapshot_scheme \<Rightarrow> string \<Rightarrow> int \<Rightarrow> py_error + string list" where
  "get_recommendations s ttl top_n =
     (case df s of
        None \<Rightarrow> Inr []
      | Some d \<Rightarrow>
     (case tfidf_matrix s of
        None \<Rightarrow> Inr []
      | Some M \<Rightarrow>
     (case title_to_idx s of
        None \<Rightarrow> Inl TypeError
      | Some t2i \<Rightarrow>
          (let norm_title = normalize_title ttl in
           case t2i norm_title of
             None \<Rightarrow> Inr []
           | Some idx \<Rightarrow>
               (case getrow M idx of
                  Inl e \<Rightarrow> Inl e
                | Inr sig \<Rightarrow> iloc (title d) (sim_indices (sim_scores M sig) top_n))))))"

text \<open>The default of the second parameter.\<close>

definition default_top_n :: int where
  "default_top_n = 10"

text \<open>
  The order of line 93 before the slice: a position comes before another when its score is
  larger, and between equal scores when the position itself is larger.
\<close>

definition ranks_before :: "real list \<Rightarrow> nat \<Rightarrow> nat \<Rightarrow> bool" where
  "ranks_before scores p q =
     (scores ! q < scores ! p \<or> (scores ! p = scores ! q \<and> q < p))"

subsection \<open>Example catalogues\<close>

text \<open>Three items; the rows of the second and third are equal, and every row has norm 1.\<close>

definition demo_df :: dataframe where
  "demo_df = \<lparr>title = [''Alpha'', ''Beta'', ''Gamma'']\<rparr>"

definition demo_indices :: "(string \<times> int) list" where
  "demo_indices = [(''Alpha'', 0), (''Beta'', 1), (''Gamma'', 2)]"

definition demo_matrix :: matrix where
  "demo_matrix = [[1, 0], [0, 1], [0, 1]]"

definition demo_snapshot :: snapshot where
  "demo_snapshot = fst (load_data (Pickled demo_df) (Pickled demo_indices) (Pickled demo_matrix))"

text \<open>Two items with the same unit row.\<close>

definition twin_snapshot :: snapshot where
  "twin_snapshot =
     fst (load_data (Pickled \<lparr>title = [''Alpha'', ''Beta'']\<rparr>)
            (Pickled [(''Alpha'', 0), (''Beta'', 1)])
            (Pickled [[1, 0], [1, 0]]))"

text \<open>Two items whose rows do not have norm 1; no two scores are equal.\<close>

definition scaled_snapshot :: snapshot where
  "scaled_snapshot =
     fst (load_data (Pickled \<lparr>title = [''Alpha'', ''Beta'']\<rparr>)
            (Pickled [(''Alpha'', 0), (''Beta'', 1)])
            (Pickled [[1], [2]]))"

section \<open>Auxiliary facts\<close>

subsection \<open>Normalisation\<close>












subsection \<open>The index loop\<close>

lemma index_loop_append:
  "index_loop m (xs @ ys) = index_loop (index_loop m xs) ys"
  by (induction xs arbitrary: m) auto

lemma index_loop_other:
  "\<forall>(k, v) \<in> set kvs. normalize_title k \<noteq> x \<Longrightarrow> index_loop m kvs x = m x"
  by (induction kvs arbitrary: m) auto


lemma index_loop_last:
  assumes "\<forall>(k', v') \<in> set post. normalize_title k' \<noteq> normalize_title k"
  shows "index_loop m (pre @ (k, v) # post) (normalize_title k) = Some v"
  using assms by (simp add: index_loop_append index_loop_other)

subsection \<open>Sorting and slicing\<close>

lemma insort_key_lex:
  fixes f :: "nat \<Rightarrow> real"
  assumes "sorted_wrt (\<lambda>p q. f p < f q \<or> (f p = f q \<and> p < q)) L"
    and "\<forall>z\<in>set L. x < z"
  shows "sorted_wrt (\<lambda>p q. f p < f q \<or> (f p = f q \<and> p < q)) (insort_key f x L)"
  using assms
proof (induction L)
  case Nil
  then show ?case by simp
next
  case (Cons y ys)
  show ?case
  proof (cases "f x \<le> f y")
    case True
    with Cons.prems show ?thesis by (auto simp: less_le)
  next
    case False
    with Cons show ?thesis by (auto simp: set_insort_key)
  qed
qed

lemma sort_key_lex:
  fixes f :: "nat \<Rightarrow> real"
  assumes "sorted_wrt (<) xs"
  shows "sorted_wrt (\<lambda>p q. f p < f q \<or> (f p = f q \<and> p < q)) (sort_key f xs)"
  using assms
proof (induction xs)
  case Nil
  then show ?case by simp
next
  case (Cons x xs)
  then have "\<forall>z\<in>set (sort_key f xs). x < z" by simp
  with Cons show ?case by (simp add: insort_key_lex)
qed

lemma ranking_sorted: "sorted_wrt (ranks_before scores) (rev (argsort scores))"
proof -
  have "sorted_wrt (<) [0..<length scores]" by (simp add: sorted_wrt_upt)
  then have "sorted_wrt (\<lambda>p q. scores ! p < scores ! q \<or> (scores ! p = scores ! q \<and> p < q))
               (argsort scores)"
    unfolding argsort_def by (rule sort_key_lex)
  then show ?thesis
    by (simp add: sorted_wrt_rev ranks_before_def eq_commute)
qed

lemma set_argsort: "set (argsort scores) = {0..<length scores}"
  by (simp add: argsort_def)

lemma length_argsort: "length (argsort scores) = length scores"
  by (simp add: argsort_def)

lemma distinct_argsort: "distinct (argsort scores)"
  by (simp add: argsort_def)

text \<open>
  Where no two scores are equal, every ascending permutation of the positions is the one
  that \<open>argsort\<close> returns: on such scores the result does not depend on the sorting
  algorithm.
\<close>

lemma argsort_unique_without_ties:
  assumes d: "distinct scores"
    and set_ps: "set ps = {0..<length scores}"
    and dist_ps: "distinct ps"
    and s: "sorted (map (\<lambda>i. scores ! i) ps)"
  shows "ps = argsort scores"
proof -
  let ?f = "\<lambda>i. scores ! i"
  have inj: "inj_on ?f {0..<length scores}"
    using d by (auto simp: inj_on_def nth_eq_iff_index_eq)
  have set_as: "set (argsort scores) = {0..<length scores}"
    by (simp add: argsort_def)
  have "map ?f ps = map ?f (argsort scores)"
  proof (rule sorted_distinct_set_unique)
    show "sorted (map ?f ps)" by (rule s)
    show "distinct (map ?f ps)"
      using dist_ps inj set_ps by (simp add: distinct_map)
    show "sorted (map ?f (argsort scores))"
      by (simp add: argsort_def)
    show "distinct (map ?f (argsort scores))"
      using inj set_as by (simp add: distinct_map argsort_def)
    show "set (map ?f ps) = set (map ?f (argsort scores))"
      by (simp add: set_ps set_as)
  qed
  moreover have "inj_on ?f (set ps \<union> set (argsort scores))"
    using inj by (simp add: set_ps set_as)
  ultimately show ?thesis
    by (simp add: inj_on_map_eq_map)
qed

lemma sorted_wrt_py_slice: "sorted_wrt R xs \<Longrightarrow> sorted_wrt R (py_slice a b xs)"
  by (simp add: py_slice_def Let_def sorted_wrt_take sorted_wrt_drop)

lemma set_py_slice: "set (py_slice a b xs) \<subseteq> set xs"
  unfolding py_slice_def Let_def
  by (meson set_take_subset set_drop_subset subset_trans)

lemma distinct_py_slice: "distinct xs \<Longrightarrow> distinct (py_slice a b xs)"
  by (simp add: py_slice_def Let_def)

lemma length_py_slice_top:
  "length (py_slice 1 (n + 1) xs) =
     (if 0 \<le> n then min (nat n) (length xs - 1)
      else if n = -1 then 0
      else nat (int (length xs) + n))"
  by (auto simp: py_slice_def slice_bound_def Let_def)

lemma py_slice_all: "int (length xs) \<le> n + 1 \<Longrightarrow> py_slice 1 (n + 1) xs = tl xs"
  by (cases xs) (auto simp: py_slice_def slice_bound_def Let_def drop_Suc)

lemma sim_indices_sorted: "sorted_wrt (ranks_before scores) (sim_indices scores n)"
  unfolding sim_indices_def by (intro sorted_wrt_py_slice ranking_sorted)

lemma sim_indices_bound: "p \<in> set (sim_indices scores n) \<Longrightarrow> p < length scores"
  using set_py_slice [of 1 "n + 1" "rev (argsort scores)"]
  by (auto simp: sim_indices_def set_argsort)

lemma sim_indices_drops_top:
  assumes "scores \<noteq> []"
  shows "hd (rev (argsort scores)) \<notin> set (sim_indices scores n)"
proof -
  let ?r = "rev (argsort scores)"
  from assms have ne: "?r \<noteq> []"
    using length_argsort [of scores] by (metis length_0_conv rev_is_Nil_conv)
  then have one: "slice_bound (length ?r) 1 = 1"
    by (cases ?r) (simp_all add: slice_bound_def)
  have "set (sim_indices scores n) \<subseteq> set (drop 1 ?r)"
    unfolding sim_indices_def py_slice_def Let_def one by (rule set_take_subset)
  moreover have "distinct ?r" by (simp add: distinct_argsort)
  with ne have "hd ?r \<notin> set (drop 1 ?r)"
    by (cases ?r) (simp_all add: drop_Suc)
  ultimately show ?thesis by blast
qed

lemma sim_indices_distinct: "distinct (sim_indices scores n)"
  by (simp add: sim_indices_def distinct_py_slice distinct_argsort)

lemma length_sim_indices:
  "length (sim_indices scores n) =
     (if 0 \<le> n then min (nat n) (length scores - 1)
      else if n = -1 then 0
      else nat (int (length scores) + n))"
  by (simp add: sim_indices_def length_py_slice_top length_argsort)

lemma iloc_Inr: "iloc col ps = Inr ys \<Longrightarrow> ys = map (\<lambda>p. col ! p) ps \<and> (\<forall>p\<in>set ps. p < length col)"
  by (auto simp: iloc_def list_all_iff split: if_splits)

lemma get_recommendations_Inr:
  assumes "get_recommendations s ttl n = Inr ys"
  shows "ys = [] \<or>
    (\<exists>d M t2i idx sig. df s = Some d \<and> tfidf_matrix s = Some M \<and> title_to_idx s = Some t2i
        \<and> t2i (normalize_title ttl) = Some idx \<and> getrow M idx = Inr sig
        \<and> iloc (title d) (sim_indices (sim_scores M sig) n) = Inr ys)"
  using assms
  by (auto simp: get_recommendations_def Let_def split: option.splits sum.splits)

lemma get_recommendations_found:
  assumes "df s = Some d" "tfidf_matrix s = Some M" "title_to_idx s = Some t2i"
    "t2i (normalize_title ttl) = Some idx" "getrow M idx = Inr sig"
  shows "get_recommendations s ttl n = iloc (title d) (sim_indices (sim_scores M sig) n)"
  using assms by (simp add: get_recommendations_def)

section \<open>The claims\<close>

subsection \<open>Degraded load and the not-found outcome\<close>

text \<open>
  C10. When the load failed, so that \<open>df\<close> or \<open>tfidf_matrix\<close> is \<open>None\<close>,
  \<open>get_recommendations\<close> returns the empty list for every title and every \<open>top_n\<close> and
  raises nothing; every failed \<open>load_data\<close> leaves such a state.
\<close>

theorem degraded_load_returns_empty:
  "(df s = None \<or> tfidf_matrix s = None \<longrightarrow> get_recommendations s ttl n = Inr [])
   \<and> (snd (load_data f_df f_indices f_tfidf) \<noteq> None \<longrightarrow>
        get_recommendations (fst (load_data f_df f_indices f_tfidf)) ttl n = Inr [])"
proof -
  have a: "get_recommendations s ttl n = Inr []" if "df s = None \<or> tfidf_matrix s = None"
    using that by (auto simp: get_recommendations_def split: option.splits)
  have b: "get_recommendations (fst (load_data f_df f_indices f_tfidf)) ttl n = Inr []"
    if "snd (load_data f_df f_indices f_tfidf) \<noteq> None"
  proof -
    from that have "df (fst (load_data f_df f_indices f_tfidf)) = None"
      by (auto simp: load_data_def load_failed_def split: sum.splits)
    then show ?thesis by (simp add: get_recommendations_def)
  qed
  from a b show ?thesis by blast
qed

theorem degraded_load_returns_empty_witness:
  "snd (load_data Missing (Pickled demo_indices) (Pickled demo_matrix))
     = Some (Critical_file_missing DF_PATH)
   \<and> df (fst (load_data Missing (Pickled demo_indices) (Pickled demo_matrix))) = None
   \<and> get_recommendations (fst (load_data Missing (Pickled demo_indices) (Pickled demo_matrix)))
        ''Alpha'' 10 = Inr []"
proof -
  have m: "snd (load_data Missing (Pickled demo_indices) (Pickled demo_matrix))
             = Some (Critical_file_missing DF_PATH)"
    by (simp add: load_data_def open_load_def load_failed_def)
  have d: "df (fst (load_data Missing (Pickled demo_indices) (Pickled demo_matrix))) = None"
    by (simp add: load_data_def open_load_def load_failed_def)
  from m d
    degraded_load_returns_empty [of "fst (load_data Missing (Pickled demo_indices) (Pickled demo_matrix))"
      "''Alpha''" 10 Missing "Pickled demo_indices" "Pickled demo_matrix"]
  show ?thesis by simp
qed

text \<open>
  C5. A title whose normalised form is not a key of the title index gives the empty list
  as a normal value, not an exception.
\<close>

theorem not_found_returns_empty:
  assumes "title_to_idx s = Some t2i" and "normalize_title ttl \<notin> dom t2i"
  shows "get_recommendations s ttl n = Inr []"
  using assms by (auto simp: get_recommendations_def split: option.splits)

theorem not_found_returns_empty_witness:
  "title_to_idx demo_snapshot = Some (index_loop Map.empty demo_indices)
   \<and> normalize_title ''definitely-not-a-title-xyz123'' \<notin> dom (index_loop Map.empty demo_indices)
   \<and> get_recommendations demo_snapshot ''definitely-not-a-title-xyz123'' 5 = Inr []"
proof -
  have a: "title_to_idx demo_snapshot = Some (index_loop Map.empty demo_indices)"
    by (simp add: demo_snapshot_def load_data_def open_load_def)
  have "index_loop Map.empty demo_indices (normalize_title ''definitely-not-a-title-xyz123'') = None"
    by code_simp
  then have b: "normalize_title ''definitely-not-a-title-xyz123''
                  \<notin> dom (index_loop Map.empty demo_indices)"
    by (simp add: domIff)
  from a b not_found_returns_empty [OF a b, of 5] show ?thesis by simp
qed

subsection \<open>The title index\<close>

text \<open>
  C9. When two entries of the index artifact have titles with the same normalised form, the
  title index maps that key to the value of the later one (the last one with that key).
\<close>

theorem last_write_wins:
  assumes "normalize_title k1 = normalize_title k2"
    and "\<forall>(k, v) \<in> set post. normalize_title k \<noteq> normalize_title k2"
  shows "\<exists>t2i. title_to_idx (fst (load_data (Pickled d)
                  (Pickled (pre @ (k1, v1) # mid @ (k2, v2) # post)) (Pickled m))) = Some t2i
               \<and> t2i (normalize_title k1) = Some v2"
proof -
  have "index_loop Map.empty ((pre @ (k1, v1) # mid) @ (k2, v2) # post) (normalize_title k2)
          = Some v2"
    using assms(2) by (rule index_loop_last)
  with assms(1) show ?thesis
    by (simp add: load_data_def open_load_def)
qed

theorem last_write_wins_witness:
  "normalize_title ''Heat'' = normalize_title '' HEAT ''
   \<and> (\<exists>t2i. title_to_idx (fst (load_data (Pickled demo_df)
                  (Pickled ([] @ (''Heat'', 0) # [(''Beta'', 1)] @ ('' HEAT '', 2) # []))
                  (Pickled demo_matrix))) = Some t2i
             \<and> t2i (normalize_title ''Heat'') = Some 2)"
proof -
  have a: "normalize_title ''Heat'' = normalize_title '' HEAT ''" by code_simp
  have b: "\<forall>(k, v) \<in> set ([] :: (string \<times> int) list).
             normalize_title k \<noteq> normalize_title '' HEAT ''"
    by simp
  from a last_write_wins [OF a b, of demo_df "[]" 0 "[(''Beta'', 1)]" 2 demo_matrix]
  show ?thesis by simp
qed




subsection \<open>Ranking\<close>

text \<open>
  C6. In every result of \<open>get_recommendations\<close> the scores do not increase from an item to
  the next one: the result is empty, or it lists the titles at the positions of line 93,
  and the inner product of the query row with the row at each position is at least that
  at the following position.
\<close>

theorem rank_ordering:
  assumes "get_recommendations s ttl n = Inr ys"
  shows "ys = [] \<or>
    (\<exists>d M t2i idx sig ps.
        df s = Some d \<and> tfidf_matrix s = Some M \<and> title_to_idx s = Some t2i
      \<and> t2i (normalize_title ttl) = Some idx \<and> getrow M idx = Inr sig
      \<and> ps = sim_indices (sim_scores M sig) n
      \<and> ys = map (\<lambda>p. title d ! p) ps
      \<and> (\<forall>k. Suc k < length ps \<longrightarrow>
            ps ! k < length M \<and> ps ! Suc k < length M
          \<and> dot (M ! (ps ! Suc k)) sig \<le> dot (M ! (ps ! k)) sig))"
proof (cases "ys = []")
  case True
  then show ?thesis by simp
next
  case False
  with get_recommendations_Inr [OF assms]
  obtain d M t2i idx sig where st:
    "df s = Some d" "tfidf_matrix s = Some M" "title_to_idx s = Some t2i"
    "t2i (normalize_title ttl) = Some idx" "getrow M idx = Inr sig"
    "iloc (title d) (sim_indices (sim_scores M sig) n) = Inr ys"
    by blast
  define ps where "ps = sim_indices (sim_scores M sig) n"
  have ys: "ys = map (\<lambda>p. title d ! p) ps"
    using st(6) iloc_Inr unfolding ps_def by blast
  have ord: "ps ! k < length M \<and> ps ! Suc k < length M
             \<and> dot (M ! (ps ! Suc k)) sig \<le> dot (M ! (ps ! k)) sig"
    if k: "Suc k < length ps" for k
  proof -
    have "ps ! k \<in> set ps" "ps ! Suc k \<in> set ps"
      using k by simp_all
    then have b: "ps ! k < length M" "ps ! Suc k < length M"
      using sim_indices_bound [of _ "sim_scores M sig" n]
      by (simp_all add: ps_def sim_scores_def)
    have "sorted_wrt (ranks_before (sim_scores M sig)) ps"
      unfolding ps_def by (rule sim_indices_sorted)
    then have "ranks_before (sim_scores M sig) (ps ! k) (ps ! Suc k)"
      using k by (simp add: sorted_wrt_iff_nth_less)
    with b show ?thesis
      by (auto simp: ranks_before_def sim_scores_def)
  qed
  from st ys ord ps_def show ?thesis by blast
qed

theorem rank_ordering_witness:
  "get_recommendations demo_snapshot ''Beta'' 10 = Inr [''Beta'', ''Alpha'']
   \<and> sim_indices (sim_scores demo_matrix [0, 1]) 10 = [1, 0]
   \<and> dot (demo_matrix ! 0) [0, 1] \<le> dot (demo_matrix ! 1) [0, 1]"
proof -
  have a: "get_recommendations demo_snapshot ''Beta'' 10 = Inr [''Beta'', ''Alpha'']"
    by code_simp
  have b: "sim_indices (sim_scores demo_matrix [0, 1]) 10 = [1, 0]"
    by code_simp
  have c: "dot (demo_matrix ! 0) [0, 1] \<le> dot (demo_matrix ! 1) [0, 1]"
    by code_simp
  from a b c rank_ordering [OF a] show ?thesis by simp
qed





subsection \<open>The length of the result\<close>

text \<open>
  C3, as the code has it. For every \<open>top_n\<close> from \<open>-1\<close> on, the result has at most
  \<open>max top_n 0\<close> entries, and it is empty for \<open>top_n\<close> 0 and \<open>-1\<close>. When the title is found,
  the result has \<open>min top_n (rows - 1)\<close> entries for \<open>top_n \<ge> 0\<close>, so a \<open>top_n\<close> of at least
  \<open>rows - 1\<close> returns every position of the ranking but the first; for \<open>top_n \<le> -2\<close> the
  stop \<open>top_n + 1\<close> of the slice is negative and counts from the end, and the result has
  \<open>max (rows + top_n) 0\<close> entries.
\<close>

theorem top_n_bound:
  assumes "get_recommendations s ttl n = Inr ys"
  shows "(- 1 \<le> n \<longrightarrow> int (length ys) \<le> max n 0)
   \<and> (n = 0 \<or> n = - 1 \<longrightarrow> ys = [])
   \<and> (\<forall>d M t2i idx sig.
         df s = Some d \<and> tfidf_matrix s = Some M \<and> title_to_idx s = Some t2i
       \<and> t2i (normalize_title ttl) = Some idx \<and> getrow M idx = Inr sig
       \<longrightarrow> length ys = (if 0 \<le> n then min (nat n) (length M - 1)
                        else if n = - 1 then 0
                        else nat (int (length M) + n))
         \<and> (0 \<le> n \<and> int (length M) \<le> n + 1 \<longrightarrow>
              ys = map (\<lambda>p. title d ! p) (tl (rev (argsort (sim_scores M sig))))))"
proof -
  have len: "length ys = (if 0 \<le> n then min (nat n) (length M - 1)
                          else if n = - 1 then 0
                          else nat (int (length M) + n))"
    and all: "0 \<le> n \<and> int (length M) \<le> n + 1 \<longrightarrow>
                ys = map (\<lambda>p. title d ! p) (tl (rev (argsort (sim_scores M sig))))"
    if st: "df s = Some d \<and> tfidf_matrix s = Some M \<and> title_to_idx s = Some t2i
          \<and> t2i (normalize_title ttl) = Some idx \<and> getrow M idx = Inr sig"
    for d M t2i idx sig
  proof -
    from st assms have "iloc (title d) (sim_indices (sim_scores M sig) n) = Inr ys"
      by (simp add: get_recommendations_found)
    then have ys: "ys = map (\<lambda>p. title d ! p) (sim_indices (sim_scores M sig) n)"
      using iloc_Inr by blast
    show "length ys = (if 0 \<le> n then min (nat n) (length M - 1)
                       else if n = - 1 then 0
                       else nat (int (length M) + n))"
      unfolding ys by (simp add: length_sim_indices sim_scores_def)
    show "0 \<le> n \<and> int (length M) \<le> n + 1 \<longrightarrow>
            ys = map (\<lambda>p. title d ! p) (tl (rev (argsort (sim_scores M sig))))"
      unfolding ys sim_indices_def
      by (simp add: py_slice_all length_argsort sim_scores_def)
  qed
  have bound: "int (length ys) \<le> max n 0" if "- 1 \<le> n"
  proof (cases "ys = []")
    case True
    then show ?thesis by simp
  next
    case False
    with get_recommendations_Inr [OF assms] len that show ?thesis
      by (auto split: if_splits)
  qed
  have empty: "ys = []" if "n = 0 \<or> n = - 1"
    using bound that by auto
  from len all bound empty show ?thesis by blast
qed

theorem top_n_bound_witness:
  "get_recommendations demo_snapshot ''Alpha'' 1 = Inr [''Gamma'']
   \<and> get_recommendations demo_snapshot ''Alpha'' 0 = Inr []
   \<and> get_recommendations demo_snapshot ''Alpha'' (- 1) = Inr []
   \<and> get_recommendations demo_snapshot ''Alpha'' 7 = Inr [''Gamma'', ''Beta'']
   \<and> int (length [''Gamma'']) \<le> max 1 0"
proof -
  have a: "get_recommendations demo_snapshot ''Alpha'' 1 = Inr [''Gamma'']"
    by code_simp
  have b: "get_recommendations demo_snapshot ''Alpha'' 0 = Inr []"
    by code_simp
  have c: "get_recommendations demo_snapshot ''Alpha'' (- 1) = Inr []"
    by code_simp
  have d: "get_recommendations demo_snapshot ''Alpha'' 7 = Inr [''Gamma'', ''Beta'']"
    by code_simp
  from a b c d top_n_bound [OF a] show ?thesis by simp
qed

text \<open>
  C3, as the claim states it, fails for \<open>top_n = -2\<close>: the slice \<open>[1:-1]\<close> of a ranking of
  three positions keeps one of them.
\<close>

theorem top_n_bound_counterexample:
  "get_recommendations demo_snapshot ''Alpha'' (- 2) = Inr [''Gamma'']
   \<and> \<not> int (length [''Gamma'']) \<le> max (- 2) 0"
  by code_simp


subsection \<open>Self-exclusion\<close>

text \<open>
  C1 fails on the code. Line 93 drops the first position of the ranking, which is the query's
  own position only when its score is the single largest. With two items of the same unit
  row the scores of the query \<open>Alpha\<close> are equal and the ranking starts with the other
  item, so the result is the queried title itself. The query \<open>Beta\<close> has the same scores
  and the same result, so under either order of the two equal scores one of the two
  queries returns its own title. With rows that do not have norm 1 the same happens
  without any equal scores.
\<close>

theorem self_not_excluded:
  "get_recommendations twin_snapshot ''Alpha'' default_top_n = Inr [''Alpha'']
   \<and> get_recommendations twin_snapshot ''Beta'' default_top_n = Inr [''Alpha'']
   \<and> get_recommendations scaled_snapshot ''Alpha'' default_top_n = Inr [''Alpha'']"
  by code_simp

subsection \<open>Loading\<close>




subsection \<open>Determinism\<close>




end
